theory Spec2Isabelle
  imports Complex_Main "HOL-Library.AList"
begin

section \<open>Detection counts: the object \<open>detected\<close>\<close>

text \<open>
  A JavaScript object with string keys is an association list in insertion order; a
  genuine object holds each key once (\<open>js_object\<close>). Counts are integers.
  \<open>Object.keys\<close> and \<open>Object.values\<close> list the keys and the values in that order,
  and \<open>detected[d]\<close> is the lookup of an own key.
\<close>

type_synonym counts = "(string \<times> int) list"


definition non_negative :: "counts \<Rightarrow> bool" where
  "non_negative detected = list_all (\<lambda>(k, c). 0 \<le> c) detected"

definition object_keys :: "counts \<Rightarrow> string list" where
  "object_keys detected = map fst detected"

definition object_values :: "counts \<Rightarrow> int list" where
  "object_values detected = map snd detected"

definition prop_of :: "counts \<Rightarrow> string \<Rightarrow> int" where
  \<comment> \<open>\<open>detected[d]\<close>, only ever read at a key \<open>d\<close> of \<open>detected\<close>\<close>
  "prop_of detected d = the (map_of detected d)"

section \<open>services/api.js: \<open>mockAnalyzeImage\<close>\<close>

text \<open>
  A score is a JavaScript number: an integer, or \<open>NaN\<close> once a value that is not a
  number has entered the arithmetic.
\<close>

datatype jsnum = Num int | NaN

record analysis =
  detected_damages :: counts
  severity :: string
  health_score :: jsnum
  precautions :: "string list"

datatype 'a promise = Resolved 'a | Rejected string

definition mockDamages :: "string list" where
  "mockDamages =
     [''minor_crack'', ''major_crack'', ''spalling'', ''peeling'', ''algae'', ''stain'',
      ''normal'']"

definition add_detection :: "counts \<Rightarrow> string \<Rightarrow> counts" where
  \<comment> \<open>\<open>detected[damage] = (detected[damage] || 0) + 1\<close>, for a \<open>damage\<close> taken from
      \<open>mockDamages\<close>: none of these names is inherited, so the lookup finds an own
      count or nothing\<close>
  "add_detection detected damage =
     AList.update damage
       ((case map_of detected damage of None \<Rightarrow> 0 | Some c \<Rightarrow> if c = 0 then 0 else c) + 1)
       detected"

definition detect :: "nat list \<Rightarrow> counts" where
  \<comment> \<open>the loop over \<open>i < numDamages\<close>; \<open>picks\<close> are the \<open>numDamages\<close> indices
      \<open>Math.floor(Math.random() * mockDamages.length)\<close> that the run draws\<close>
  "detect picks = foldl (\<lambda>detected i. add_detection detected (mockDamages ! i)) [] picks"


definition count_of :: "counts \<Rightarrow> int" where
  \<comment> \<open>\<open>Object.values(detected).reduce((a, b) => a + b, 0)\<close>\<close>
  "count_of detected = foldl (\<lambda>a b. a + b) 0 (object_values detected)"

definition penalties :: "(string \<times> int) list" where
  "penalties =
     [(''major_crack'', 15), (''minor_crack'', 8), (''spalling'', 20), (''peeling'', 10),
      (''algae'', 5), (''stain'', 5), (''normal'', 0)]"

text \<open>
  \<open>penalties\<close> is a plain object literal, so \<open>penalties[d]\<close> finds an own entry, or a
  member that every object inherits from \<open>Object.prototype\<close> (a function, or the
  prototype object itself under \<open>__proto__\<close>), or nothing.
\<close>

datatype property = Own int | Inherited | Absent

definition object_prototype_names :: "string list" where
  "object_prototype_names =
     [''constructor'', ''__defineGetter__'', ''__defineSetter__'', ''hasOwnProperty'',
      ''__lookupGetter__'', ''__lookupSetter__'', ''isPrototypeOf'',
      ''propertyIsEnumerable'', ''toString'', ''valueOf'', ''__proto__'',
      ''toLocaleString'']"

definition penalties_get :: "string \<Rightarrow> property" where
  \<comment> \<open>\<open>penalties[d]\<close>\<close>
  "penalties_get d =
     (case map_of penalties d of
        Some p \<Rightarrow> Own p
      | None \<Rightarrow> if d \<in> set object_prototype_names then Inherited else Absent)"

definition penalty :: "string \<Rightarrow> jsnum" where
  \<comment> \<open>\<open>penalties[d] || 0\<close> as the operand of \<open>*\<close>: undefined and the entry 0 are falsy
      and give 0; an inherited member is truthy and is not a number\<close>
  "penalty d =
     (case penalties_get d of
        Own p \<Rightarrow> Num (if p = 0 then 0 else p)
      | Inherited \<Rightarrow> NaN
      | Absent \<Rightarrow> Num 0)"

fun js_times :: "jsnum \<Rightarrow> int \<Rightarrow> jsnum" where
  "js_times (Num p) c = Num (p * c)"
| "js_times NaN c = NaN"

fun js_minus :: "jsnum \<Rightarrow> jsnum \<Rightarrow> jsnum" where
  "js_minus (Num a) (Num b) = Num (a - b)"
| "js_minus _ _ = NaN"

fun math_max :: "jsnum \<Rightarrow> int \<Rightarrow> jsnum" where
  \<comment> \<open>\<open>Math.max(score, 0)\<close>: \<open>NaN\<close> when an argument is \<open>NaN\<close>\<close>
  "math_max (Num a) b = Num (max a b)"
| "math_max NaN b = NaN"

definition subtract_penalties :: "counts \<Rightarrow> jsnum \<Rightarrow> jsnum" where
  \<comment> \<open>\<open>Object.keys(detected).forEach((d) => { score -= (penalties[d] || 0) * detected[d] })\<close>\<close>
  "subtract_penalties detected score =
     foldl (\<lambda>score d. js_minus score (js_times (penalty d) (prop_of detected d))) score
       (object_keys detected)"

definition mock_precautions :: "string list" where
  "mock_precautions =
     [''Regular inspection recommended'', ''Monitor damaged areas monthly'',
      ''Consider professional assessment'']"

definition mock_analysis :: "counts \<Rightarrow> analysis" where
  \<comment> \<open>from \<open>const count\<close> to the object handed to \<open>resolve\<close>\<close>
  "mock_analysis detected =
     (let count = count_of detected;
          (severity, score) =
            (if count > 0
             then (let score = math_max (subtract_penalties detected (Num 100)) 0
                   in (if count \<le> 2 then ''Moderate'' else ''Critical'', score))
             else (''Good'', Num 100))
      in \<lparr>detected_damages = detected, severity = severity, health_score = score,
          precautions = mock_precautions\<rparr>)"

definition settle :: "counts \<Rightarrow> analysis promise" where
  \<comment> \<open>how the promise settles once \<open>detected\<close> is drawn: the executor takes only
      \<open>resolve\<close>, checks nothing and throws nowhere\<close>
  "settle detected = Resolved (mock_analysis detected)"

definition mockAnalyzeImage :: "'img \<Rightarrow> nat list \<Rightarrow> analysis promise" where
  \<comment> \<open>\<open>imageData\<close> is not read\<close>
  "mockAnalyzeImage imageData picks = settle (detect picks)"




section \<open>Dashboard component: statistics, deletion, damage type\<close>

text \<open>
  An inspection is a record of the list the server returns. Its two identifier fields
  \<open>_id\<close> and \<open>id\<close> hold a string, null or nothing (undefined). Its severity is a
  string that may be absent (\<open>None\<close>); it is only ever compared with the three tier
  names. Its \<open>health_score\<close> is kept as a JavaScript value, since \<open>computeStats\<close>
  tests it for truthiness: undefined (the field is missing), null, a boolean or an
  integer number. String scores, which would turn the sum into a string concatenation,
  are left out of the model.
\<close>

datatype jsval = JUndefined | JNull | JBool bool | JNum int

datatype key = KUndefined | KNull | KStr string

record inspection =
  under_id :: key
  plain_id :: key
  insp_detected_damages :: "counts option"
  insp_severity :: "string option"
  insp_health_score :: jsval

record statistics =
  totalInspections :: nat
  averageScore :: int
  severityCount :: "(string \<times> nat) list"

fun truthy :: "jsval \<Rightarrow> bool" where
  "truthy JUndefined = False"
| "truthy JNull = False"
| "truthy (JBool b) = b"
| "truthy (JNum n) = (n \<noteq> 0)"

fun score_or_zero :: "jsval \<Rightarrow> int" where
  \<comment> \<open>what \<open>sum + (insp.health_score || 0)\<close> adds to the number \<open>sum\<close>: a falsy value
      is replaced by 0, a truthy one is converted to a number (\<open>true\<close> to 1)\<close>
  "score_or_zero JUndefined = 0"
| "score_or_zero JNull = 0"
| "score_or_zero (JBool b) = (if b then 1 else 0)"
| "score_or_zero (JNum n) = n"

definition score_sum :: "inspection list \<Rightarrow> int" where
  \<comment> \<open>\<open>list.reduce((sum, insp) => sum + (insp.health_score || 0), 0)\<close>\<close>
  "score_sum list = foldl (\<lambda>sum insp. sum + score_or_zero (insp_health_score insp)) 0 list"

definition math_round :: "rat \<Rightarrow> int" where
  \<comment> \<open>\<open>Math.round\<close>: the nearest integer, a tie going up. The quotient it is applied
      to is the exact one: on integers of this size the rounding of the double division
      moves no quotient across a half.\<close>
  "math_round x = \<lfloor>x + 1 / 2\<rfloor>"

definition severity_tally :: "inspection list \<Rightarrow> string \<Rightarrow> nat" where
  \<comment> \<open>\<open>list.filter((i) => i.severity === tier).length\<close>\<close>
  "severity_tally list tier = length (filter (\<lambda>i. insp_severity i = Some tier) list)"

definition computeStats :: "inspection list \<Rightarrow> statistics option" where
  \<comment> \<open>the value passed to \<open>setStats\<close>; \<open>None\<close> is \<open>null\<close>. An array is never falsy,
      so \<open>!list\<close> is false on every list.\<close>
  "computeStats list =
     (if list = [] then None
      else
        let total = length list;
            avgScore = of_int (score_sum list) / of_nat total;
            severityCount =
              [(''Good'', severity_tally list ''Good''),
               (''Moderate'', severity_tally list ''Moderate''),
               (''Critical'', severity_tally list ''Critical'')]
        in Some \<lparr>totalInspections = total, averageScore = math_round avgScore,
                 severityCount = severityCount\<rparr>)"

fun truthy_key :: "key \<Rightarrow> bool" where
  "truthy_key KUndefined = False"
| "truthy_key KNull = False"
| "truthy_key (KStr s) = (s \<noteq> [])"

definition ident :: "inspection \<Rightarrow> key" where
  \<comment> \<open>\<open>insp._id || insp.id\<close>\<close>
  "ident insp = (if truthy_key (under_id insp) then under_id insp else plain_id insp)"

definition remaining :: "inspection list \<Rightarrow> key \<Rightarrow> inspection list" where
  \<comment> \<open>\<open>inspections.filter((insp) => (insp._id || insp.id) !== id)\<close>\<close>
  "remaining inspections id' = filter (\<lambda>insp. ident insp \<noteq> id') inspections"

record dashboard =
  inspections :: "inspection list"
  stats :: "statistics option"

datatype delete_outcome = NoAuthHeader | ResponseNotOk | ResponseOk | Thrown

definition handleDeleteInspection :: "delete_outcome \<Rightarrow> dashboard \<Rightarrow> key \<Rightarrow> dashboard" where
  \<comment> \<open>the component's state after the handler; only a successful DELETE request
      reaches \<open>setInspections\<close> and \<open>computeStats\<close>\<close>
  "handleDeleteInspection outcome st id' =
     (case outcome of
        ResponseOk \<Rightarrow>
          (let remaining' = remaining (inspections st) id'
           in st\<lparr>inspections := remaining', stats := computeStats remaining'\<rparr>)
      | _ \<Rightarrow> st)"

definition getDamageType :: "counts option \<Rightarrow> string" where
  "getDamageType damages =
     (case damages of
        None \<Rightarrow> ''No Damage''
      | Some d \<Rightarrow>
          if length (object_keys d) = 0 then ''No Damage''
          else
            let damageTypes = object_keys d
            in if ''major_crack'' \<in> set damageTypes \<or> ''spalling'' \<in> set damageTypes
               then ''Critical Damage''
               else if ''minor_crack'' \<in> set damageTypes \<or> ''peeling'' \<in> set damageTypes
               then ''Surface Damage''
               else ''Minor Damage'')"

definition critical_kinds :: "string list" where
  \<comment> \<open>the kinds that \<open>getDamageType\<close> reports as critical damage\<close>
  "critical_kinds = [''major_crack'', ''spalling'']"

definition critical_present :: "counts \<Rightarrow> bool" where
  \<comment> \<open>some critical kind is detected at least once\<close>
  "critical_present detected = list_ex (\<lambda>(k, c). k \<in> set critical_kinds \<and> 1 \<le> c) detected"

definition tiers :: "string list" where
  "tiers = [''Good'', ''Moderate'', ''Critical'']"

definition has_tier :: "inspection \<Rightarrow> bool" where
  \<comment> \<open>the record's severity is one of the three tiers\<close>
  "has_tier insp = (insp_severity insp \<in> Some ` set tiers)"

subsection \<open>Sample inspections\<close>

definition sample :: "string \<Rightarrow> string \<Rightarrow> jsval \<Rightarrow> inspection" where
  "sample key tier score =
     \<lparr>under_id = KStr key, plain_id = KUndefined, insp_detected_damages = None,
      insp_severity = Some tier, insp_health_score = score\<rparr>"

definition sample_history :: "inspection list" where
  "sample_history =
     [sample ''a1'' ''Good'' (JNum 90), sample ''b2'' ''Moderate'' (JNum 70),
      sample ''c3'' ''Moderate'' (JNum 50)]"

section \<open>Result component: the PDF download\<close>

record report_options =
  inspectionId :: "string option"
  filename :: "string option"
  imageDataUrl :: "string option"

record report =
  report_name :: string
  report_severity :: string
  report_score :: jsnum
  report_damages :: counts
  report_precautions :: "string list"
  report_image :: "string option"
  report_warning :: "string option"

text \<open>
  Modelled from the spec: \<open>generateInspectionReport\<close> of \<open>utils/pdfGenerator\<close>, which the
  Result component imports and which is not among the sources. The specification's
  report exporter writes the severity label, the health score, the detected kinds with
  their counts and the precautions in their order; it embeds the source image when
  there is one that can be read, and otherwise produces a text-only report that carries
  a warning. It names no condition under which the export fails. Whether a data URL can
  be read (\<open>readable\<close>) and the file name scheme (\<open>name_of\<close>) are left open by the
  specification and are parameters. \<open>Inl\<close> would be a thrown error.
\<close>

definition generateInspectionReport ::
  "(string \<Rightarrow> bool) \<Rightarrow> (report_options \<Rightarrow> string) \<Rightarrow> analysis \<Rightarrow> report_options
     \<Rightarrow> string + report" where
  \<comment> \<open>Modelled from the spec: the absent \<open>generateInspectionReport\<close>\<close>
  "generateInspectionReport readable name_of a options =
     (let embedded =
            (case imageDataUrl options of
               None \<Rightarrow> None
             | Some url \<Rightarrow> if readable url then Some url else None)
      in Inr \<lparr>report_name = name_of options,
               report_severity = severity a,
               report_score = health_score a,
               report_damages = detected_damages a,
               report_precautions = precautions a,
               report_image = embedded,
               report_warning =
                 (case embedded of
                    None \<Rightarrow> Some ''Source image not embedded''
                  | Some _ \<Rightarrow> None)\<rparr>)"

definition report_file_name ::
  "(string \<Rightarrow> bool) \<Rightarrow> (report_options \<Rightarrow> string) \<Rightarrow> analysis \<Rightarrow> report_options
     \<Rightarrow> string + string" where
  \<comment> \<open>Modelled from the spec: what the absent \<open>generateInspectionReport\<close> hands back to
      its caller, the name of the file it wrote\<close>
  "report_file_name readable name_of a options =
     (case generateInspectionReport readable name_of a options of
        Inl error \<Rightarrow> Inl error
      | Inr r \<Rightarrow> Inr (report_name r))"

definition handleDownloadPDF ::
  "(analysis \<Rightarrow> report_options \<Rightarrow> string + string) \<Rightarrow> analysis \<Rightarrow> string option
     \<Rightarrow> string option \<Rightarrow> string option \<Rightarrow> string" where
  \<comment> \<open>the text of the alert; \<open>generate\<close> returns the file name or throws (\<open>Inl\<close>)\<close>
  "handleDownloadPDF generate a image' filename' inspectionId' =
     (case generate a
             \<lparr>inspectionId = inspectionId', filename = filename', imageDataUrl = image'\<rparr> of
        Inr fileNameOut \<Rightarrow> ''PDF report downloaded: '' @ fileNameOut
      | Inl error \<Rightarrow> ''Failed to generate PDF report'')"

section \<open>Helper lemmas\<close>

lemma foldl_plus_sum_list: "foldl (\<lambda>a b. a + b) a xs = a + sum_list (xs :: int list)"
  by (induction xs arbitrary: a) simp_all

lemma count_of_sum_list: "count_of detected = sum_list (map snd detected)"
  by (simp add: count_of_def object_values_def foldl_plus_sum_list)




lemma penalty_inherited:
  assumes "d \<in> set object_prototype_names"
  shows "penalty d = NaN"
proof -
  have "map_of penalties d = None"
    using assms by (auto simp: penalties_def object_prototype_names_def)
  with assms show ?thesis
    by (simp add: penalty_def penalties_get_def)
qed







lemma severity_mock_analysis:
  "severity (mock_analysis detected) =
     (if count_of detected > 0
      then (if count_of detected \<le> 2 then ''Moderate'' else ''Critical'')
      else ''Good'')"
  by (simp add: mock_analysis_def Let_def)

lemma health_score_mock_analysis:
  "health_score (mock_analysis detected) =
     (if count_of detected > 0 then math_max (subtract_penalties detected (Num 100)) 0
      else Num 100)"
  by (simp add: mock_analysis_def Let_def)

lemma non_negative_entry:
  assumes "non_negative detected" and "(k, c) \<in> set detected"
  shows "0 \<le> c"
  using assms by (fastforce simp: non_negative_def list_all_iff)

lemma total_nonneg:
  assumes "non_negative detected"
  shows "0 \<le> sum_list (map snd detected)"
proof (rule sum_list_nonneg)
  fix x
  assume "x \<in> set (map snd detected)"
  then obtain k where "(k, x) \<in> set detected" by auto
  then show "0 \<le> x" by (rule non_negative_entry [OF assms])
qed

lemma non_negative_Cons:
  "non_negative (e # es) \<longleftrightarrow> 0 \<le> snd e \<and> non_negative es"
  by (simp add: non_negative_def case_prod_beta)

lemma entry_le_sum_list:
  assumes "non_negative detected" and "(k, c) \<in> set detected"
  shows "c \<le> sum_list (map snd detected)"
  using assms
proof (induction detected)
  case Nil
  then show ?case by simp
next
  case (Cons e es)
  from Cons.prems(1) have es: "non_negative es" and e: "0 \<le> snd e"
    by (simp_all add: non_negative_Cons)
  show ?case
  proof (cases "(k, c) = e")
    case True
    with total_nonneg [OF es] show ?thesis by auto
  next
    case False
    with Cons.prems(2) have "(k, c) \<in> set es" by auto
    with Cons.IH [OF es] e show ?thesis by simp
  qed
qed


section \<open>What a run of the demo analysis draws\<close>












text \<open>
  A kind that bears an inherited name would turn the score into \<open>NaN\<close>; no run draws
  such a kind.
\<close>

lemma inherited_kind_score:
  "health_score (mock_analysis [(''constructor'', 1)]) = NaN"
  by (simp add: mock_analysis_def count_of_def object_values_def object_keys_def
      subtract_penalties_def prop_of_def penalty_inherited object_prototype_names_def)

section \<open>Severity classification and health score\<close>





text \<open>
  Claim C4. When the counts total 0 the severity is Good and the health score is 100;
  when the total is 1 or 2 and no critical kind is present the severity is Moderate;
  when the total exceeds 2 the severity is Critical.
\<close>

theorem severity_by_total:
  "(sum_list (map snd detected) = 0 \<longrightarrow>
      severity (mock_analysis detected) = ''Good''
      \<and> health_score (mock_analysis detected) = Num 100)
   \<and> (1 \<le> sum_list (map snd detected) \<and> sum_list (map snd detected) \<le> 2
        \<and> \<not> critical_present detected \<longrightarrow>
      severity (mock_analysis detected) = ''Moderate'')
   \<and> (2 < sum_list (map snd detected) \<longrightarrow>
      severity (mock_analysis detected) = ''Critical'')"
  by (simp add: severity_mock_analysis health_score_mock_analysis count_of_sum_list)

theorem severity_by_total_witness:
  "sum_list (map snd ([] :: counts)) = 0
   \<and> severity (mock_analysis []) = ''Good'' \<and> health_score (mock_analysis []) = Num 100
   \<and> 1 \<le> sum_list (map snd [(''minor_crack'', 1), (''stain'', 1 :: int)])
   \<and> sum_list (map snd [(''minor_crack'', 1), (''stain'', 1 :: int)]) \<le> 2
   \<and> \<not> critical_present [(''minor_crack'', 1), (''stain'', 1)]
   \<and> severity (mock_analysis [(''minor_crack'', 1), (''stain'', 1)]) = ''Moderate''
   \<and> 2 < sum_list (map snd [(''algae'', 2), (''stain'', 1 :: int)])
   \<and> severity (mock_analysis [(''algae'', 2), (''stain'', 1)]) = ''Critical''"
proof -
  have mid: "\<not> critical_present [(''minor_crack'', 1), (''stain'', 1)]"
    by (simp add: critical_present_def critical_kinds_def)
  show ?thesis
    using mid severity_by_total [of "[]"]
      severity_by_total [of "[(''minor_crack'', 1), (''stain'', 1)]"]
      severity_by_total [of "[(''algae'', 2), (''stain'', 1)]"]
    by simp
qed

section \<open>Critical kinds and the severity\<close>

text \<open>
  Claim C1, as amended. The severity depends on the total count alone. For a
  detection-count object with non-negative counts in which a critical kind
  (major_crack or spalling) is detected at least once, the severity is Critical when the
  total exceeds 2 and Moderate when the total is 1 or 2. It is the damage type label of
  \<open>getDamageType\<close> that is Critical Damage for every such object.
\<close>

theorem critical_kind_severity_by_total:
  assumes "critical_present detected" and "non_negative detected"
  shows "severity (mock_analysis detected) =
           (if sum_list (map snd detected) \<le> 2 then ''Moderate'' else ''Critical'')
         \<and> getDamageType (Some detected) = ''Critical Damage''"
proof -
  from assms(1) obtain k c
    where entry: "(k, c) \<in> set detected" and kind: "k \<in> set critical_kinds" and "1 \<le> c"
    by (auto simp: critical_present_def list_ex_iff)
  with entry_le_sum_list [OF assms(2) entry] have "0 < count_of detected"
    by (simp add: count_of_sum_list)
  then have sev: "severity (mock_analysis detected) =
      (if sum_list (map snd detected) \<le> 2 then ''Moderate'' else ''Critical'')"
    by (simp add: severity_mock_analysis count_of_sum_list)
  from entry have "k \<in> set (object_keys detected)"
    by (force simp: object_keys_def)
  with kind have "''major_crack'' \<in> set (object_keys detected)
      \<or> ''spalling'' \<in> set (object_keys detected)"
    by (auto simp: critical_kinds_def)
  moreover from entry have "object_keys detected \<noteq> []"
    by (auto simp: object_keys_def)
  ultimately have "getDamageType (Some detected) = ''Critical Damage''"
    by (simp add: getDamageType_def Let_def)
  with sev show ?thesis by simp
qed

theorem critical_kind_severity_by_total_witness:
  "critical_present [(''spalling'', 1), (''stain'', 1)]
   \<and> non_negative [(''spalling'', 1), (''stain'', 1)]
   \<and> severity (mock_analysis [(''spalling'', 1), (''stain'', 1)]) = ''Moderate''
   \<and> getDamageType (Some [(''spalling'', 1), (''stain'', 1)]) = ''Critical Damage''
   \<and> critical_present [(''major_crack'', 3)]
   \<and> non_negative [(''major_crack'', 3)]
   \<and> severity (mock_analysis [(''major_crack'', 3)]) = ''Critical''"
proof -
  have a: "critical_present [(''spalling'', 1), (''stain'', 1)]"
    and b: "critical_present [(''major_crack'', 3)]"
    by (simp_all add: critical_present_def critical_kinds_def)
  have c: "non_negative [(''spalling'', 1), (''stain'', 1)]"
    and d: "non_negative [(''major_crack'', 3)]"
    by (simp_all add: non_negative_def)
  show ?thesis
    using a b c d critical_kind_severity_by_total [OF a c]
      critical_kind_severity_by_total [OF b d]
    by simp
qed

text \<open>
  Claim C1 as stated fails: a run of \<open>mockAnalyzeImage\<close> that draws major_crack once
  detects a critical kind and resolves with severity Moderate.
\<close>

theorem single_major_crack_is_moderate:
  "critical_present [(''major_crack'', 1)]
   \<and> severity (mock_analysis [(''major_crack'', 1)]) \<noteq> ''Critical''
   \<and> mockAnalyzeImage () [1] =
       Resolved \<lparr>detected_damages = [(''major_crack'', 1)], severity = ''Moderate'',
                 health_score = Num 85, precautions = mock_precautions\<rparr>"
  by (simp add: critical_present_def critical_kinds_def mockAnalyzeImage_def settle_def
      detect_def add_detection_def mockDamages_def mock_analysis_def count_of_def
      object_values_def object_keys_def subtract_penalties_def penalty_def
      penalties_get_def penalties_def prop_of_def)

section \<open>Building an analysis\<close>



text \<open>
  The part of \<open>mockAnalyzeImage\<close> from \<open>const count\<close> on checks nothing: handed an object
  with a negative count, which no run draws, it would resolve as well.
\<close>

lemma negative_count_resolves:
  "settle [(''stain'', - 1)] =
     Resolved \<lparr>detected_damages = [(''stain'', - 1)], severity = ''Good'',
               health_score = Num 100, precautions = mock_precautions\<rparr>"
  by (simp add: settle_def mock_analysis_def count_of_def object_values_def)

section \<open>Statistics over the inspection history\<close>

lemma foldl_plus_map:
  "foldl (\<lambda>sum insp. sum + f insp) a list = a + sum_list (map f list :: int list)"
  by (induction list arbitrary: a) simp_all

lemma score_sum_sum_list:
  "score_sum list = sum_list (map (\<lambda>insp. score_or_zero (insp_health_score insp)) list)"
  by (simp add: score_sum_def foldl_plus_map)

lemma score_sum_numbers:
  assumes "map insp_health_score list = map JNum scores"
  shows "score_sum list = sum_list scores"
proof -
  have "map (\<lambda>insp. score_or_zero (insp_health_score insp)) list =
        map score_or_zero (map insp_health_score list)"
    by simp
  also have "\<dots> = scores"
    by (simp add: assms comp_def)
  finally show ?thesis
    by (simp add: score_sum_sum_list)
qed

lemma math_round_nearest:
  "of_int (math_round x) - 1 / 2 \<le> x \<and> x < of_int (math_round x) + 1 / 2"
proof -
  have "of_int \<lfloor>x + 1 / 2\<rfloor> \<le> x + 1 / 2" and "x + 1 / 2 < of_int \<lfloor>x + 1 / 2\<rfloor> + 1"
    by linarith+
  then show ?thesis
    unfolding math_round_def by linarith
qed

lemma computeStats_Some:
  assumes "list \<noteq> []"
  shows "computeStats list =
    Some \<lparr>totalInspections = length list,
          averageScore = math_round (of_int (score_sum list) / of_nat (length list)),
          severityCount =
            [(''Good'', severity_tally list ''Good''),
             (''Moderate'', severity_tally list ''Moderate''),
             (''Critical'', severity_tally list ''Critical'')]\<rparr>"
  using assms by (simp add: computeStats_def Let_def)

text \<open>
  Claim C5. For the empty history \<open>computeStats\<close> sets the statistics to null, without
  an error. For a non-empty history whose health scores are numbers, the total is the
  length of the history and the average score is the mean of the scores rounded to the
  nearest integer, a tie going up: the integer \<open>a\<close> with \<open>a - 1/2 \<le> mean < a + 1/2\<close>.
\<close>

theorem computeStats_total_and_average:
  "computeStats [] = None
   \<and> (list \<noteq> [] \<and> map insp_health_score list = map JNum scores \<longrightarrow>
        (\<exists>st. computeStats list = Some st
           \<and> totalInspections st = length list
           \<and> of_int (averageScore st) - 1 / 2
                \<le> (of_int (sum_list scores) / of_nat (length list) :: rat)
           \<and> (of_int (sum_list scores) / of_nat (length list) :: rat)
                < of_int (averageScore st) + 1 / 2))"
proof (intro conjI impI)
  show "computeStats [] = None"
    by (simp add: computeStats_def)
next
  assume h: "list \<noteq> [] \<and> map insp_health_score list = map JNum scores"
  then have sum: "score_sum list = sum_list scores"
    by (simp add: score_sum_numbers)
  let ?mean = "of_int (sum_list scores) / of_nat (length list) :: rat"
  from h have "computeStats list =
      Some \<lparr>totalInspections = length list, averageScore = math_round ?mean,
            severityCount =
              [(''Good'', severity_tally list ''Good''),
               (''Moderate'', severity_tally list ''Moderate''),
               (''Critical'', severity_tally list ''Critical'')]\<rparr>"
    by (simp add: computeStats_Some sum)
  with math_round_nearest [of ?mean]
  show "\<exists>st. computeStats list = Some st
           \<and> totalInspections st = length list
           \<and> of_int (averageScore st) - 1 / 2 \<le> ?mean
           \<and> ?mean < of_int (averageScore st) + 1 / 2"
    by simp
qed

theorem computeStats_total_and_average_witness:
  "sample_history \<noteq> []
   \<and> map insp_health_score sample_history = map JNum [90, 70, 50]
   \<and> (\<exists>st. computeStats sample_history = Some st
          \<and> totalInspections st = 3 \<and> averageScore st = 70)"
  using computeStats_total_and_average [of sample_history "[90, 70, 50]"]
  by (simp add: sample_history_def sample_def computeStats_def score_sum_def math_round_def)

lemma severity_tally_sum:
  assumes "list_all has_tier list"
  shows "severity_tally list ''Good'' + severity_tally list ''Moderate''
           + severity_tally list ''Critical'' = length list"
  using assms
proof (induction list)
  case Nil
  then show ?case by (simp add: severity_tally_def)
next
  case (Cons i list)
  then have i: "has_tier i" and rest: "list_all has_tier list" by simp_all
  have ih: "severity_tally list ''Good'' + severity_tally list ''Moderate''
      + severity_tally list ''Critical'' = length list"
    using Cons.IH [OF rest] .
  from i consider "insp_severity i = Some ''Good''" | "insp_severity i = Some ''Moderate''"
    | "insp_severity i = Some ''Critical''"
    by (auto simp: has_tier_def tiers_def)
  then show ?case
    using ih by cases (simp_all add: severity_tally_def)
qed

text \<open>
  Claim C6. For a non-empty history (the empty one yields no statistics at all), the
  severity histogram of \<open>computeStats\<close> has exactly the keys Good, Moderate and Critical,
  whatever their counts, and when every record's severity is one of these tiers the three
  counts add up to the total.
\<close>

theorem severityCount_tiers_and_sum:
  assumes "list \<noteq> []"
  shows "\<exists>st. computeStats list = Some st
           \<and> map fst (severityCount st) = [''Good'', ''Moderate'', ''Critical'']
           \<and> (list_all has_tier list \<longrightarrow>
                sum_list (map snd (severityCount st)) = totalInspections st)"
proof -
  have "list_all has_tier list \<longrightarrow>
      severity_tally list ''Good'' + (severity_tally list ''Moderate''
        + (severity_tally list ''Critical'' + 0)) = length list"
    using severity_tally_sum [of list] by auto
  then show ?thesis
    by (simp add: computeStats_Some [OF assms])
qed

theorem severityCount_tiers_and_sum_witness:
  "sample_history \<noteq> [] \<and> list_all has_tier sample_history
   \<and> (\<exists>st. computeStats sample_history = Some st
          \<and> severityCount st = [(''Good'', 1), (''Moderate'', 2), (''Critical'', 0)]
          \<and> sum_list (map snd (severityCount st)) = totalInspections st)"
  using severityCount_tiers_and_sum [of sample_history]
  by (simp add: sample_history_def sample_def has_tier_def tiers_def computeStats_def
      severity_tally_def)

section \<open>Deleting an inspection\<close>

lemma remaining_split:
  assumes "distinct (map ident h)" and "h = pre @ x # post"
  shows "remaining h (ident x) = pre @ post"
proof -
  from assms have "ident x \<notin> ident ` set pre" and "ident x \<notin> ident ` set post"
    by auto
  then have "\<forall>y\<in>set pre. ident y \<noteq> ident x" and "\<forall>y\<in>set post. ident y \<noteq> ident x"
    by (metis imageI)+
  then have "filter (\<lambda>insp. ident insp \<noteq> ident x) pre = pre"
    and "filter (\<lambda>insp. ident insp \<noteq> ident x) post = post"
    by (simp_all add: filter_id_conv)
  with assms(2) show ?thesis
    by (simp add: remaining_def)
qed

lemma handleDeleteInspection_state:
  "handleDeleteInspection ResponseOk st id' =
     st\<lparr>inspections := remaining (inspections st) id',
        stats := computeStats (remaining (inspections st) id')\<rparr>"
  "outcome \<noteq> ResponseOk \<Longrightarrow> handleDeleteInspection outcome st id' = st"
  by (cases outcome; simp add: handleDeleteInspection_def Let_def)+

text \<open>
  Claim C7. \<open>remaining\<close> returns the history unchanged when no record has the
  identifier; applying it twice with the same identifier gives what applying it once
  gives; and in a history whose identifiers are distinct, when a record has the
  identifier, exactly that one record is taken out and the others stay in their order.
\<close>

theorem remaining_removes_the_entry:
  "(id' \<notin> ident ` set h \<longrightarrow> remaining h id' = h)
   \<and> remaining (remaining h id') id' = remaining h id'
   \<and> (distinct (map ident h) \<and> id' \<in> ident ` set h \<longrightarrow>
        (\<exists>pre x post. h = pre @ x # post \<and> ident x = id' \<and> remaining h id' = pre @ post))"
proof (intro conjI impI)
  assume "id' \<notin> ident ` set h"
  then show "remaining h id' = h"
    by (auto simp: remaining_def filter_id_conv)
next
  show "remaining (remaining h id') id' = remaining h id'"
    by (simp add: remaining_def)
next
  assume h: "distinct (map ident h) \<and> id' \<in> ident ` set h"
  then obtain x where "x \<in> set h" and x: "ident x = id'"
    by auto
  then obtain pre post where split: "h = pre @ x # post"
    by (auto dest: split_list)
  from h remaining_split [OF _ split] x have "remaining h id' = pre @ post"
    by simp
  with split x
  show "\<exists>pre x post. h = pre @ x # post \<and> ident x = id' \<and> remaining h id' = pre @ post"
    by blast
qed

theorem remaining_removes_the_entry_witness:
  "KStr ''zz'' \<notin> ident ` set sample_history
   \<and> remaining sample_history (KStr ''zz'') = sample_history
   \<and> distinct (map ident sample_history)
   \<and> KStr ''b2'' \<in> ident ` set sample_history
   \<and> remaining sample_history (KStr ''b2'') =
       [sample ''a1'' ''Good'' (JNum 90), sample ''c3'' ''Moderate'' (JNum 50)]
   \<and> remaining (remaining sample_history (KStr ''b2'')) (KStr ''b2'') =
       remaining sample_history (KStr ''b2'')"
  using remaining_removes_the_entry [of "KStr ''zz''" sample_history]
    remaining_removes_the_entry [of "KStr ''b2''" sample_history]
  by (simp add: sample_history_def sample_def ident_def remaining_def)

section \<open>Records without a usable health score\<close>




section \<open>The report export\<close>

text \<open>
  Claim C9. For every analysis and options, the export returns a report with the
  analysis's severity, score, damages and precautions; when the source image is absent
  or cannot be read, the report holds no image and carries a warning; and the download
  handler announces the file, never the failure.
\<close>

theorem export_degrades_without_image:
  "\<exists>r. generateInspectionReport readable name_of a
          \<lparr>inspectionId = inspectionId', filename = filename', imageDataUrl = image'\<rparr> = Inr r
       \<and> report_severity r = severity a \<and> report_score r = health_score a
       \<and> report_damages r = detected_damages a \<and> report_precautions r = precautions a
       \<and> ((image' = None \<or> (\<exists>url. image' = Some url \<and> \<not> readable url)) \<longrightarrow>
            report_image r = None \<and> report_warning r \<noteq> None)
       \<and> handleDownloadPDF (report_file_name readable name_of) a image' filename' inspectionId'
            = ''PDF report downloaded: '' @ report_name r"
  by (auto simp: generateInspectionReport_def report_file_name_def handleDownloadPDF_def
      Let_def)

theorem export_degrades_without_image_witness:
  "(\<exists>r. generateInspectionReport (\<lambda>url. url = ''data:image/png;base64,iVBORw0KGgo='')
           (\<lambda>options. ''inspection-report.pdf'') (mock_analysis [(''spalling'', 1)])
           \<lparr>inspectionId = Some ''a1'', filename = Some ''wall.jpg'', imageDataUrl = None\<rparr> = Inr r
        \<and> report_severity r = ''Moderate'' \<and> report_score r = Num 80
        \<and> report_image r = None \<and> report_warning r \<noteq> None)
   \<and> (\<exists>r. generateInspectionReport (\<lambda>url. url = ''data:image/png;base64,iVBORw0KGgo='')
           (\<lambda>options. ''inspection-report.pdf'') (mock_analysis [(''spalling'', 1)])
           \<lparr>inspectionId = Some ''a1'', filename = Some ''wall.jpg'',
            imageDataUrl = Some ''data:,''\<rparr> = Inr r
        \<and> report_image r = None \<and> report_warning r \<noteq> None)
   \<and> handleDownloadPDF
        (report_file_name (\<lambda>url. url = ''data:image/png;base64,iVBORw0KGgo='')
           (\<lambda>options. ''inspection-report.pdf''))
        (mock_analysis [(''spalling'', 1)]) None (Some ''wall.jpg'') (Some ''a1'')
       = ''PDF report downloaded: inspection-report.pdf''"
  using export_degrades_without_image
    [of "\<lambda>url. url = ''data:image/png;base64,iVBORw0KGgo=''" "\<lambda>options. ''inspection-report.pdf''"
        "mock_analysis [(''spalling'', 1)]" "Some ''a1''" "Some ''wall.jpg''" None]
    export_degrades_without_image
    [of "\<lambda>url. url = ''data:image/png;base64,iVBORw0KGgo=''" "\<lambda>options. ''inspection-report.pdf''"
        "mock_analysis [(''spalling'', 1)]" "Some ''a1''" "Some ''wall.jpg''" "Some ''data:,''"]
  by (simp add: generateInspectionReport_def report_file_name_def handleDownloadPDF_def
      mock_analysis_def count_of_def object_values_def object_keys_def
      subtract_penalties_def penalty_def penalties_get_def penalties_def prop_of_def)

end
